theory Spec2Isabelle
  imports Complex_Main
begin

section \<open>Values exchanged with the libraries\<close>

text \<open>
  The service (\<^verbatim>\<open>ocr_service.py\<close>) is a thin wrapper around OpenCV, Pillow, the
  standard library and EasyOCR. Exceptions are values: every call that can raise returns
  \<open>exn + 'a\<close>, with \<open>Inl\<close> for the exception. The string carried by an
  exception is what \<^verbatim>\<open>str(e)\<close> gives, since the handlers print it.
\<close>

datatype exn =
  ValueError string | IndexError string | TypeError string | OSError string | LibraryError string

fun str_exn :: "exn \<Rightarrow> string" where
  "str_exn (ValueError m) = m"
| "str_exn (IndexError m) = m"
| "str_exn (TypeError m) = m"
| "str_exn (OSError m) = m"
| "str_exn (LibraryError m) = m"

type_synonym path = string

text \<open>
  What \<^verbatim>\<open>reader.readtext\<close> returns: a list of triples (bounding polygon, text,
  confidence). A polygon is a list of points, a point a list of coordinates. Coordinates
  and confidences are finite numbers, modelled by their exact values: a floating-point
  number is the rational it denotes, and comparison of finite floating-point numbers is
  comparison of these values.
\<close>

type_synonym point = "real list"
type_synonym polygon = "point list"
type_synonym raw_detection = "polygon \<times> string \<times> real"

record bbox =
  x0 :: int
  y0 :: int
  x1 :: int
  y1 :: int

record detection =
  dtext :: string
  confidence :: real
  bbox :: bbox

subsection \<open>Python primitives used by the formatting loop\<close>

text \<open>\<^verbatim>\<open>xs[i]\<close> for a non-negative literal index: IndexError out of range.\<close>

definition py_index :: "'a list \<Rightarrow> nat \<Rightarrow> exn + 'a" where
  "py_index xs i =
     (if i < length xs then Inr (xs ! i) else Inl (IndexError ''list index out of range''))"

text \<open>\<^verbatim>\<open>int(x)\<close> on a finite number truncates toward zero.\<close>

definition py_int :: "real \<Rightarrow> int" where
  "py_int x = (if 0 \<le> x then \<lfloor>x\<rfloor> else \<lceil>x\<rceil>)"

text \<open>
  \<^verbatim>\<open>str.isspace\<close> on one character, for the code points a \<open>char\<close> can hold (0 to 255):
  tab, line feed, vertical tab, form feed, carriage return, the four separators
  0x1C to 0x1F, space, NEL (0x85) and the no-break space (0xA0).
\<close>

definition isspace :: "char \<Rightarrow> bool" where
  "isspace c \<longleftrightarrow> (of_char c :: nat) \<in> {9, 10, 11, 12, 13, 28, 29, 30, 31, 32, 133, 160}"

text \<open>\<^verbatim>\<open>s.strip()\<close>: drop whitespace at both ends.\<close>

definition strip :: "string \<Rightarrow> string" where
  "strip s = rev (dropWhile isspace (rev (dropWhile isspace s)))"

section \<open>Formatting the engine's results\<close>

text \<open>
  The literal \<^verbatim>\<open>0.1\<close> of the confidence filter. It is a double, the one nearest to one
  tenth (\<^verbatim>\<open>0x3FB999999999999A\<close>), whose exact value is 3602879701896397 / 2^55, a little
  above one tenth.
\<close>

definition conf_threshold :: real where
  "conf_threshold = 3602879701896397 / 36028797018963968"

text \<open>\<^verbatim>\<open>int(bbox[i][j])\<close>\<close>

definition coord :: "polygon \<Rightarrow> nat \<Rightarrow> nat \<Rightarrow> exn + int" where
  "coord bb i j =
     (case py_index bb i of
        Inl e \<Rightarrow> Inl e
      | Inr p \<Rightarrow> (case py_index p j of Inl e \<Rightarrow> Inl e | Inr v \<Rightarrow> Inr (py_int v)))"

text \<open>
  The dictionary appended for one kept triple: the stripped text, the confidence, and the
  box made of the polygon's points 0 and 2.
\<close>

definition make_detection :: "raw_detection \<Rightarrow> exn + detection" where
  "make_detection r =
     (case r of (bb, t, c) \<Rightarrow>
        (case coord bb 0 0 of Inl e \<Rightarrow> Inl e | Inr a \<Rightarrow>
        (case coord bb 0 1 of Inl e \<Rightarrow> Inl e | Inr b \<Rightarrow>
        (case coord bb 2 0 of Inl e \<Rightarrow> Inl e | Inr c' \<Rightarrow>
        (case coord bb 2 1 of Inl e \<Rightarrow> Inl e | Inr d \<Rightarrow>
           Inr \<lparr>dtext = strip t, confidence = c,
                bbox = \<lparr>x0 = a, y0 = b, x1 = c', y1 = d\<rparr>\<rparr>)))))"

text \<open>
  The loop \<^verbatim>\<open>for (bbox, text, confidence) in results\<close>, with \<open>acc\<close> the list
  \<^verbatim>\<open>ocr_results\<close> built so far. An exception leaves the loop.
\<close>

fun format_results :: "raw_detection list \<Rightarrow> detection list \<Rightarrow> exn + detection list" where
  "format_results [] acc = Inr acc"
| "format_results (r # rs) acc =
     (if conf_threshold < snd (snd r)
      then (case make_detection r of
              Inl e \<Rightarrow> Inl e
            | Inr d \<Rightarrow> format_results rs (acc @ [d]))
      else format_results rs acc)"


section \<open>The libraries and the filesystem\<close>

text \<open>
  The filesystem maps a path to what is there: a file with its contents, or a directory.
\<close>

datatype 'bytes node = File 'bytes | Directory

type_synonym 'bytes filesystem = "path \<rightharpoonup> 'bytes node"

text \<open>
  What \<^verbatim>\<open>reader.readtext\<close> can be given: a path (when preprocessing is off), a
  pixel array, or \<^verbatim>\<open>None\<close> (when preprocessing fell back and the fallback load
  failed as well). Given a path the engine reads the file itself, so it is a function of
  the filesystem too.
\<close>

datatype 'img ocr_input = PathInput path | ImageInput 'img | NoneInput

type_synonym ('img, 'bytes) readtext =
  "'bytes filesystem \<Rightarrow> 'img ocr_input \<Rightarrow> exn + raw_detection list"

text \<open>
  The library calls of the source, as opaque functions: \<open>'img\<close> is a pixel array,
  \<open>'pil\<close> a Pillow image, \<open>'bytes\<close> a byte string. \<^verbatim>\<open>cv2.imread\<close> returns
  \<^verbatim>\<open>None\<close> for a file it cannot decode; the other calls raise.
  \<open>easyocr_Reader\<close> is the constructor call of \<^verbatim>\<open>__init__\<close>: it raises or gives
  the engine. \<open>float_repr\<close> is \<^verbatim>\<open>float.__repr__\<close>, used by \<^verbatim>\<open>json.dumps\<close>.
  \<open>os_can_write\<close> and \<open>os_can_remove\<close> are the permissions of the process: whether
  it may create or overwrite a file at a path, and whether it may unlink one.
\<close>

record ('img, 'pil, 'bytes) libs =
  cv2_imdecode :: "'bytes \<Rightarrow> 'img option"
  cv2_imdecode_grayscale :: "'bytes \<Rightarrow> 'img option"
  cv2_cvtColor_BGR2GRAY :: "'img \<Rightarrow> exn + 'img"
  cv2_GaussianBlur :: "'img \<Rightarrow> exn + 'img"
  cv2_adaptiveThreshold :: "'img \<Rightarrow> exn + 'img"
  cv2_morphologyEx_close :: "'img \<Rightarrow> exn + 'img"
  base64_b64decode :: "string \<Rightarrow> exn + 'bytes"
  Image_open :: "'bytes \<Rightarrow> exn + 'pil"
  np_array :: "'pil \<Rightarrow> exn + 'img"
  cv2_cvtColor_RGB2BGR :: "'img \<Rightarrow> exn + 'img"
  cv2_imencode_jpg :: "'img \<Rightarrow> exn + 'bytes"
  easyocr_Reader :: "exn + ('img, 'bytes) readtext"
  float_repr :: "real \<Rightarrow> string"
  os_can_write :: "path \<Rightarrow> bool"
  os_can_remove :: "path \<Rightarrow> bool"

text \<open>\<^verbatim>\<open>cv2.imread(path)\<close> and \<^verbatim>\<open>cv2.imread(path, cv2.IMREAD_GRAYSCALE)\<close>:
  \<^verbatim>\<open>None\<close> when there is no file at the path or it cannot be decoded.\<close>

definition imread :: "('img, 'pil, 'bytes) libs \<Rightarrow> 'bytes filesystem \<Rightarrow> path \<Rightarrow> 'img option" where
  "imread L fs p =
     (case fs p of None \<Rightarrow> None | Some Directory \<Rightarrow> None | Some (File b) \<Rightarrow> cv2_imdecode L b)"

definition imread_grayscale ::
  "('img, 'pil, 'bytes) libs \<Rightarrow> 'bytes filesystem \<Rightarrow> path \<Rightarrow> 'img option" where
  "imread_grayscale L fs p =
     (case fs p of None \<Rightarrow> None | Some Directory \<Rightarrow> None
      | Some (File b) \<Rightarrow> cv2_imdecode_grayscale L b)"

text \<open>
  \<^verbatim>\<open>cv2.imwrite(path, img)\<close>: the encoding can raise. When the file cannot be opened for
  writing (a directory is at the path, or the process may not write there) the call
  returns \<^verbatim>\<open>False\<close> and leaves the path as it was; otherwise it writes the file and
  returns \<^verbatim>\<open>True\<close>.
\<close>

definition imwrite ::
  "('img, 'pil, 'bytes) libs \<Rightarrow> 'bytes filesystem \<Rightarrow> path \<Rightarrow> 'img \<Rightarrow> (exn + bool) \<times> 'bytes filesystem" where
  "imwrite L fs p img =
     (case cv2_imencode_jpg L img of
        Inl e \<Rightarrow> (Inl e, fs)
      | Inr b \<Rightarrow>
          (if fs p = Some Directory \<or> \<not> os_can_write L p then (Inr False, fs)
           else (Inr True, fs(p \<mapsto> File b))))"

text \<open>\<^verbatim>\<open>os.path.exists(path)\<close>: true for a file and for a directory.\<close>

definition os_path_exists :: "'bytes filesystem \<Rightarrow> path \<Rightarrow> bool" where
  "os_path_exists fs p \<longleftrightarrow> fs p \<noteq> None"

definition quoted :: "string \<Rightarrow> string" where
  "quoted p = [CHR 0x27] @ p @ [CHR 0x27]"

text \<open>
  \<^verbatim>\<open>os.remove(path)\<close>: raises when nothing is at the path, when a directory is there, or
  when the process may not unlink the file; otherwise the file is gone.
\<close>

definition os_remove ::
  "('img, 'pil, 'bytes) libs \<Rightarrow> 'bytes filesystem \<Rightarrow> path \<Rightarrow> exn + 'bytes filesystem" where
  "os_remove L fs p =
     (case fs p of
        None \<Rightarrow> Inl (OSError (''[Errno 2] No such file or directory: '' @ quoted p))
      | Some Directory \<Rightarrow> Inl (OSError (''[Errno 21] Is a directory: '' @ quoted p))
      | Some (File b) \<Rightarrow>
          (if os_can_remove L p then Inr (fs(p := None))
           else Inl (OSError (''[Errno 13] Permission denied: '' @ quoted p))))"

subsection \<open>Decimal output\<close>

definition digit_char :: "nat \<Rightarrow> char" where
  "digit_char d = ''0123456789abcdef'' ! (d mod 16)"

function string_of_nat :: "nat \<Rightarrow> string" where
  "string_of_nat n =
     (if n < 10 then [digit_char n] else string_of_nat (n div 10) @ [digit_char (n mod 10)])"
  by pat_completeness auto
termination
  by (relation "measure (\<lambda>n. n)") auto

declare string_of_nat.simps [simp del]

definition string_of_int :: "int \<Rightarrow> string" where
  "string_of_int i = (if i < 0 then ''-'' @ string_of_nat (nat (- i)) else string_of_nat (nat i))"

section \<open>The service\<close>

record ('img, 'bytes) OCRService =
  reader :: "('img, 'bytes) readtext"

text \<open>
  Every function returns, beside its value, the lines it printed to standard error, in
  order.
\<close>

text \<open>\<^verbatim>\<open>OCRService.__init__\<close>\<close>

definition OCRService_init ::
  "('img, 'pil, 'bytes) libs \<Rightarrow> (exn + ('img, 'bytes) OCRService) \<times> string list" where
  "OCRService_init L =
     (case easyocr_Reader L of
        Inl e \<Rightarrow> (Inl e, [''Initializing EasyOCR...''])
      | Inr r \<Rightarrow> (Inr \<lparr>reader = r\<rparr>,
                  [''Initializing EasyOCR...'', ''EasyOCR initialized successfully'']))"

text \<open>The \<^verbatim>\<open>try\<close> block of \<^verbatim>\<open>preprocess_image\<close>.\<close>

definition preprocess_image_try ::
  "('img, 'pil, 'bytes) libs \<Rightarrow> 'bytes filesystem \<Rightarrow> path \<Rightarrow> exn + 'img" where
  "preprocess_image_try L fs image_path =
     (case imread L fs image_path of
        None \<Rightarrow> Inl (ValueError (''Could not load image from '' @ image_path))
      | Some img \<Rightarrow>
     (case cv2_cvtColor_BGR2GRAY L img of Inl e \<Rightarrow> Inl e | Inr gray \<Rightarrow>
     (case cv2_GaussianBlur L gray of Inl e \<Rightarrow> Inl e | Inr blurred \<Rightarrow>
     (case cv2_adaptiveThreshold L blurred of Inl e \<Rightarrow> Inl e | Inr thresh \<Rightarrow>
     (case cv2_morphologyEx_close L thresh of Inl e \<Rightarrow> Inl e | Inr cleaned \<Rightarrow>
        Inr cleaned)))))"

text \<open>
  \<^verbatim>\<open>preprocess_image\<close>: the handler prints the error and returns the grayscale load of
  the path, which is \<^verbatim>\<open>None\<close> when that load fails.
\<close>

definition preprocess_image ::
  "('img, 'pil, 'bytes) libs \<Rightarrow> 'bytes filesystem \<Rightarrow> path \<Rightarrow> 'img option \<times> string list" where
  "preprocess_image L fs image_path =
     (case preprocess_image_try L fs image_path of
        Inr cleaned \<Rightarrow> (Some cleaned, [])
      | Inl e \<Rightarrow> (imread_grayscale L fs image_path,
                  [''Error preprocessing image: '' @ str_exn e]))"

definition as_input :: "'img option \<Rightarrow> 'img ocr_input" where
  "as_input r = (case r of None \<Rightarrow> NoneInput | Some i \<Rightarrow> ImageInput i)"

text \<open>\<^verbatim>\<open>extract_text_from_image\<close>: any exception gives the empty list.\<close>

definition extract_text_from_image ::
  "('img, 'pil, 'bytes) libs \<Rightarrow> ('img, 'bytes) OCRService \<Rightarrow> 'bytes filesystem \<Rightarrow> path \<Rightarrow> bool
     \<Rightarrow> detection list \<times> string list" where
  "extract_text_from_image L svc fs image_path preprocess =
     (let log0 = [''Processing image: '' @ image_path];
          (processed_image, log1) =
             (if preprocess
              then (case preprocess_image L fs image_path of (r, l) \<Rightarrow> (as_input r, l))
              else (PathInput image_path, []))
      in (case reader svc fs processed_image of
            Inl e \<Rightarrow> ([], log0 @ log1 @ [''Error extracting text: '' @ str_exn e])
          | Inr results \<Rightarrow>
              (case format_results results [] of
                 Inl e \<Rightarrow> ([], log0 @ log1 @ [''Error extracting text: '' @ str_exn e])
               | Inr ocr_results \<Rightarrow>
                   (ocr_results,
                    log0 @ log1 @
                    [''Extracted '' @ string_of_nat (length ocr_results) @ '' text elements'']))))"

definition temp_path :: path where
  "temp_path = ''/tmp/temp_ocr_image.jpg''"

text \<open>
  \<^verbatim>\<open>extract_text_from_base64\<close>; the third component is the filesystem it leaves. The
  value \<^verbatim>\<open>imwrite\<close> returns is not looked at. When \<^verbatim>\<open>os.remove\<close> raises, the handler
  gives the empty list, after the lines the extraction has already printed.
\<close>

definition extract_text_from_base64 ::
  "('img, 'pil, 'bytes) libs \<Rightarrow> ('img, 'bytes) OCRService \<Rightarrow> 'bytes filesystem \<Rightarrow> string \<Rightarrow> bool
     \<Rightarrow> detection list \<times> string list \<times> 'bytes filesystem" where
  "extract_text_from_base64 L svc fs base64_string preprocess =
     (let failed = (\<lambda>printed e fs'.
            ([], printed @ [''Error processing base64 image: '' @ str_exn e], fs'))
      in
     (case base64_b64decode L base64_string of Inl e \<Rightarrow> failed [] e fs | Inr image_data \<Rightarrow>
     (case Image_open L image_data of Inl e \<Rightarrow> failed [] e fs | Inr pil_image \<Rightarrow>
     (case np_array L pil_image of Inl e \<Rightarrow> failed [] e fs | Inr arr \<Rightarrow>
     (case cv2_cvtColor_RGB2BGR L arr of Inl e \<Rightarrow> failed [] e fs | Inr cv_image \<Rightarrow>
     (case imwrite L fs temp_path cv_image of
        (Inl e, fs1) \<Rightarrow> failed [] e fs1
      | (Inr ok, fs1) \<Rightarrow>
          (case extract_text_from_image L svc fs1 temp_path preprocess of
             (results, printed) \<Rightarrow>
               (if os_path_exists fs1 temp_path
                then (case os_remove L fs1 temp_path of
                        Inl e \<Rightarrow> failed printed e fs1
                      | Inr fs2 \<Rightarrow> (results, printed, fs2))
                else (results, printed, fs1)))))))))"


section \<open>Output\<close>

text \<open>\<^verbatim>\<open>sep.join(parts)\<close>\<close>

fun join :: "string \<Rightarrow> string list \<Rightarrow> string" where
  "join sep [] = []"
| "join sep [x] = x"
| "join sep (x # y # ys) = x @ sep @ join sep (y # ys)"

definition newline :: char where
  "newline = CHR 0x0A"

definition backslash :: char where
  "backslash = CHR 0x5C"

definition dquote :: char where
  "dquote = CHR 0x22"

text \<open>
  \<^verbatim>\<open>json.dumps\<close> with its default \<^verbatim>\<open>ensure_ascii\<close>: the two-character escapes,
  and a \<^verbatim>\<open>\u00XX\<close> escape for every other character outside space to tilde.
\<close>

definition json_escape :: "char \<Rightarrow> string" where
  "json_escape c =
     (let n = (of_char c :: nat) in
      if c = dquote then [backslash, dquote]
      else if c = backslash then [backslash, backslash]
      else if n = 10 then [backslash, CHR ''n'']
      else if n = 13 then [backslash, CHR ''r'']
      else if n = 9 then [backslash, CHR ''t'']
      else if n = 8 then [backslash, CHR ''b'']
      else if n = 12 then [backslash, CHR ''f'']
      else if 32 \<le> n \<and> n \<le> 126 then [c]
      else [backslash, CHR ''u'', CHR ''0'', CHR ''0'', digit_char (n div 16), digit_char (n mod 16)])"

definition json_string :: "string \<Rightarrow> string" where
  "json_string s = [dquote] @ concat (map json_escape s) @ [dquote]"

definition json_key :: "string \<Rightarrow> string" where
  "json_key k = json_string k @ '': ''"

text \<open>One detection, as \<^verbatim>\<open>indent=2\<close> lays it out inside the array.\<close>

definition json_detection :: "('img, 'pil, 'bytes) libs \<Rightarrow> detection \<Rightarrow> string" where
  "json_detection L d =
     join ([newline])
      [''  {'',
       ''    '' @ json_key ''text'' @ json_string (dtext d) @ '','',
       ''    '' @ json_key ''confidence'' @ float_repr L (confidence d) @ '','',
       ''    '' @ json_key ''bbox'' @ ''{'',
       ''      '' @ json_key ''x0'' @ string_of_int (x0 (bbox d)) @ '','',
       ''      '' @ json_key ''y0'' @ string_of_int (y0 (bbox d)) @ '','',
       ''      '' @ json_key ''x1'' @ string_of_int (x1 (bbox d)) @ '','',
       ''      '' @ json_key ''y1'' @ string_of_int (y1 (bbox d)),
       ''    }'',
       ''  }'']"

text \<open>\<^verbatim>\<open>json.dumps(results, indent=2)\<close>: the empty list is \<^verbatim>\<open>[]\<close>.\<close>

definition json_dumps :: "('img, 'pil, 'bytes) libs \<Rightarrow> detection list \<Rightarrow> string" where
  "json_dumps L results =
     (if results = [] then ''[]''
      else ''['' @ [newline] @ join ('','' @ [newline]) (map (json_detection L) results)
           @ [newline] @ '']'')"

text \<open>\<^verbatim>\<open>print(s)\<close> to standard output writes \<open>s\<close> and a line feed.\<close>

definition print :: "string \<Rightarrow> string" where
  "print s = s @ [newline]"

section \<open>The command line\<close>

datatype output_format = Json | Text

text \<open>
  The namespace \<^verbatim>\<open>parse_args\<close> returns: an option that was not given is
  \<^verbatim>\<open>None\<close>.
\<close>

record args =
  arg_image :: "string option"
  arg_base64 :: "string option"
  arg_no_preprocess :: bool
  arg_output_format :: output_format

text \<open>Truth value of an optional string: \<^verbatim>\<open>None\<close> and the empty string are false.\<close>

definition truthy :: "string option \<Rightarrow> bool" where
  "truthy v = (case v of None \<Rightarrow> False | Some s \<Rightarrow> s \<noteq> [])"

record 'bytes outcome =
  stdout :: string
  stderr :: "string list"
  exit_code :: nat
  files :: "'bytes filesystem"

text \<open>
  The extraction step of \<^verbatim>\<open>main\<close>: the image path when \<^verbatim>\<open>args.image\<close> is true,
  the base64 payload otherwise.
\<close>

definition main_extract ::
  "('img, 'pil, 'bytes) libs \<Rightarrow> ('img, 'bytes) OCRService \<Rightarrow> 'bytes filesystem \<Rightarrow> args
     \<Rightarrow> detection list \<times> string list \<times> 'bytes filesystem" where
  "main_extract L svc fs a =
     (if truthy (arg_image a)
      then (case extract_text_from_image L svc fs (case arg_image a of Some p \<Rightarrow> p | None \<Rightarrow> [])
                   (\<not> arg_no_preprocess a) of
              (results, printed) \<Rightarrow> (results, printed, fs))
      else (case arg_base64 a of
              Some s \<Rightarrow> extract_text_from_base64 L svc fs s (\<not> arg_no_preprocess a)
            | None \<Rightarrow>
                ([], [''Error processing base64 image: '' @
                      str_exn (TypeError (''argument should be a bytes-like object or ASCII string, not ''
                                         @ [CHR 0x27] @ ''NoneType'' @ [CHR 0x27]))],
                 fs)))"

text \<open>What \<^verbatim>\<open>main\<close> writes to standard output for a result list.\<close>

definition main_output :: "('img, 'pil, 'bytes) libs \<Rightarrow> output_format \<Rightarrow> detection list \<Rightarrow> string" where
  "main_output L fmt results =
     (case fmt of
        Json \<Rightarrow> print (json_dumps L results)
      | Text \<Rightarrow> print (join [newline] (map dtext results)))"

text \<open>\<^verbatim>\<open>main\<close>, from the parsed arguments to the process's outcome.\<close>

definition main :: "('img, 'pil, 'bytes) libs \<Rightarrow> 'bytes filesystem \<Rightarrow> args \<Rightarrow> 'bytes outcome" where
  "main L fs a =
     (if \<not> truthy (arg_image a) \<and> \<not> truthy (arg_base64 a)
      then \<lparr>stdout = [], stderr = [''Error: Must provide either --image or --base64''],
            exit_code = 1, files = fs\<rparr>
      else (case OCRService_init L of
              (Inl e, l0) \<Rightarrow>
                \<lparr>stdout = [], stderr = l0 @ [''Error: '' @ str_exn e], exit_code = 1, files = fs\<rparr>
            | (Inr ocr_service, l0) \<Rightarrow>
                (case main_extract L ocr_service fs a of
                   (results, l1, fs') \<Rightarrow>
                     \<lparr>stdout = main_output L (arg_output_format a) results,
                      stderr = l0 @ l1, exit_code = 0, files = fs'\<rparr>)))"


section \<open>Notions used to state the properties\<close>

text \<open>What \<^verbatim>\<open>extract_text_from_image\<close> hands to \<^verbatim>\<open>reader.readtext\<close>.\<close>

definition engine_input ::
  "('img, 'pil, 'bytes) libs \<Rightarrow> 'bytes filesystem \<Rightarrow> path \<Rightarrow> bool \<Rightarrow> 'img ocr_input" where
  "engine_input L fs image_path preprocess =
     (if preprocess then as_input (fst (preprocess_image L fs image_path))
      else PathInput image_path)"

text \<open>The confidence of a triple returned by the engine.\<close>

definition raw_confidence :: "raw_detection \<Rightarrow> real" where
  "raw_confidence r = snd (snd r)"

text \<open>
  The first point of a polygon is at or above-left of its third point (read only when the
  polygon has the points and coordinates that the formatting loop indexes).
\<close>

definition corners_ordered :: "polygon \<Rightarrow> bool" where
  "corners_ordered bb \<longleftrightarrow>
     (2 < length bb \<and> 1 < length (bb ! 0) \<and> 1 < length (bb ! 2)
        \<longrightarrow> bb ! 0 ! 0 \<le> bb ! 2 ! 0 \<and> bb ! 0 ! 1 \<le> bb ! 2 ! 1)"

text \<open>The box made of the truncated coordinates of a polygon's points 0 and 2.\<close>

definition corner_box :: "polygon \<Rightarrow> bbox" where
  "corner_box bb =
     \<lparr>x0 = py_int (bb ! 0 ! 0), y0 = py_int (bb ! 0 ! 1),
      x1 = py_int (bb ! 2 ! 0), y1 = py_int (bb ! 2 ! 1)\<rparr>"

text \<open>
  The first four steps of \<^verbatim>\<open>extract_text_from_base64\<close>: the payload decoded, opened,
  turned into an array and converted to the channel order of OpenCV.
\<close>

definition payload_image :: "('img, 'pil, 'bytes) libs \<Rightarrow> string \<Rightarrow> exn + 'img" where
  "payload_image L base64_string =
     (case base64_b64decode L base64_string of Inl e \<Rightarrow> Inl e | Inr image_data \<Rightarrow>
     (case Image_open L image_data of Inl e \<Rightarrow> Inl e | Inr pil_image \<Rightarrow>
     (case np_array L pil_image of Inl e \<Rightarrow> Inl e | Inr arr \<Rightarrow>
        cv2_cvtColor_RGB2BGR L arr)))"

subsection \<open>A small world to run the service in\<close>

text \<open>
  Files, images and arrays are numbers here. File 0 cannot be decoded. Writing a JPEG
  changes the data (adds 10), as a lossy encoder does. The engine reads file 1 as two good
  lines and one whose confidence is the double 0.1 itself, the re-encoded file 11 with
  other confidences, files 2 and 12 as one line in a tilted box, file 4 as one line at the
  double 0.1 and one at the next double above it, and nothing elsewhere. Every confidence
  is a value of a double. The process may write and remove everywhere.
\<close>

definition demo_box :: polygon where
  "demo_box = [[10, 20], [110, 20], [110, 50], [10, 50]]"

definition demo_tilted_box :: polygon where
  "demo_tilted_box = [[0, 10], [1, 11], [11, 1], [10, 0]]"

definition demo_raw :: "raw_detection list" where
  "demo_raw = [(demo_box, ''  Hello '', 7 / 8),
               (demo_box, ''noise'', 3602879701896397 / 36028797018963968),
               (demo_box, ''World'', 1 / 2)]"

definition demo_raw_jpeg :: "raw_detection list" where
  "demo_raw_jpeg = [(demo_box, ''  Hello '', 13 / 16), (demo_box, ''World'', 3 / 8)]"

definition demo_raw_faint :: "raw_detection list" where
  "demo_raw_faint = [(demo_box, ''at'', 3602879701896397 / 36028797018963968),
                     (demo_box, ''above'', 7205759403792795 / 72057594037927936)]"

definition demo_raw_tilted :: "raw_detection list" where
  "demo_raw_tilted = [(demo_tilted_box, ''slanted'', 3 / 4)]"

definition demo_ocr :: "nat \<Rightarrow> raw_detection list" where
  "demo_ocr b =
     (if b = 1 then demo_raw else if b = 11 then demo_raw_jpeg
      else if b = 2 \<or> b = 12 then demo_raw_tilted
      else if b = 4 then demo_raw_faint else [])"

definition demo_readtext :: "(nat, nat) readtext" where
  "demo_readtext fs inp =
     (case inp of
        PathInput p \<Rightarrow>
          (case fs p of None \<Rightarrow> Inl (LibraryError ''No such file'')
           | Some Directory \<Rightarrow> Inl (LibraryError ''Is a directory'')
           | Some (File b) \<Rightarrow> if b = 0 then Inl (LibraryError ''cannot identify image file'')
                              else Inr (demo_ocr b))
      | ImageInput i \<Rightarrow> Inr (demo_ocr i)
      | NoneInput \<Rightarrow> Inl (ValueError ''Invalid input type''))"

definition demo_service :: "(nat, nat) OCRService" where
  "demo_service = \<lparr>reader = demo_readtext\<rparr>"

definition demo_b64decode :: "string \<Rightarrow> exn + nat" where
  "demo_b64decode s =
     (if s = ''AA=='' then Inr 0 else if s = ''AQ=='' then Inr 1 else if s = ''Ag=='' then Inr 2
      else Inl (LibraryError ''Incorrect padding''))"

definition demo_libs :: "(nat, nat, nat) libs" where
  "demo_libs =
     \<lparr>cv2_imdecode = (\<lambda>b. if b = 0 then None else Some b),
      cv2_imdecode_grayscale = (\<lambda>b. if b = 0 then None else Some b),
      cv2_cvtColor_BGR2GRAY = Inr,
      cv2_GaussianBlur = (\<lambda>i. if i = 3 then Inl (LibraryError ''blur failed'') else Inr i),
      cv2_adaptiveThreshold = Inr,
      cv2_morphologyEx_close = Inr,
      base64_b64decode = demo_b64decode,
      Image_open = (\<lambda>b. if b = 0 then Inl (LibraryError ''cannot identify image file'') else Inr b),
      np_array = Inr,
      cv2_cvtColor_RGB2BGR = Inr,
      cv2_imencode_jpg = (\<lambda>i. Inr (i + 10)),
      easyocr_Reader = Inr demo_readtext,
      float_repr = (\<lambda>x. if x = 7 / 8 then ''0.875'' else if x = 1 / 2 then ''0.5'' else ''0.75''),
      os_can_write = (\<lambda>p. True),
      os_can_remove = (\<lambda>p. True)\<rparr>"

definition demo_files :: "nat filesystem" where
  "demo_files = [''page.png'' \<mapsto> File 1, ''slanted.png'' \<mapsto> File 2, ''noisy.png'' \<mapsto> File 3,
                 ''faint.png'' \<mapsto> File 4, ''broken.png'' \<mapsto> File 0]"


section \<open>Facts about the formatting loop and the primitives\<close>

lemma py_int_mono: "x \<le> y \<Longrightarrow> py_int x \<le> py_int y"
proof -
  assume le: "x \<le> y"
  consider "0 \<le> x" | "x < 0" "0 \<le> y" | "y < 0" by linarith
  then show ?thesis
  proof cases
    case 1
    with le show ?thesis by (simp add: py_int_def floor_mono)
  next
    case 2
    from 2 have a: "\<lceil>x\<rceil> \<le> 0" by (simp add: ceiling_le_zero)
    from 2 have b: "0 \<le> \<lfloor>y\<rfloor>" by simp
    from a b have "\<lceil>x\<rceil> \<le> \<lfloor>y\<rfloor>" by linarith
    with 2 show ?thesis by (simp add: py_int_def)
  next
    case 3
    with le have "x < 0" by simp
    with 3 le show ?thesis by (simp add: py_int_def ceiling_mono)
  qed
qed

lemma coord_Inr:
  "coord bb i j = Inr v \<Longrightarrow> i < length bb \<and> j < length (bb ! i) \<and> v = py_int (bb ! i ! j)"
  by (auto simp: coord_def py_index_def split: if_splits sum.splits)

lemma make_detection_Inr:
  assumes "make_detection r = Inr d"
  shows "dtext d = strip (fst (snd r))" and "confidence d = raw_confidence r"
    and "coord (fst r) 0 0 = Inr (x0 (bbox d))" and "coord (fst r) 0 1 = Inr (y0 (bbox d))"
    and "coord (fst r) 2 0 = Inr (x1 (bbox d))" and "coord (fst r) 2 1 = Inr (y1 (bbox d))"
  using assms
  by (auto simp: make_detection_def raw_confidence_def split: prod.splits sum.splits)

lemma format_results_kept:
  "format_results rs acc = Inr ds \<Longrightarrow>
     \<exists>ks. ds = acc @ ks \<and>
          map Inr ks = map make_detection (filter (\<lambda>r. conf_threshold < raw_confidence r) rs)"
proof (induction rs arbitrary: acc)
  case Nil
  then show ?case by simp
next
  case (Cons r rs)
  show ?case
  proof (cases "conf_threshold < raw_confidence r")
    case False
    with Cons show ?thesis by (simp add: raw_confidence_def)
  next
    case True
    with Cons.prems obtain d where d: "make_detection r = Inr d"
      and rest: "format_results rs (acc @ [d]) = Inr ds"
      by (auto simp: raw_confidence_def split: sum.splits)
    from Cons.IH [OF rest] obtain ks where "ds = (acc @ [d]) @ ks"
      and "map Inr ks = map make_detection (filter (\<lambda>r. conf_threshold < raw_confidence r) rs)"
      by blast
    with True d show ?thesis by (intro exI [of _ "d # ks"]) simp
  qed
qed

lemma format_results_origin:
  assumes "format_results rs [] = Inr ds" and "d \<in> set ds"
  shows "\<exists>r\<in>set rs. conf_threshold < raw_confidence r \<and> make_detection r = Inr d"
proof -
  from format_results_kept [OF assms(1)]
  have eq: "map Inr ds = map make_detection (filter (\<lambda>r. conf_threshold < raw_confidence r) rs)"
    by simp
  from arg_cong [OF eq, of set]
  have "Inr ` set ds = make_detection ` set (filter (\<lambda>r. conf_threshold < raw_confidence r) rs)"
    by simp
  with assms(2)
  have "Inr d \<in> make_detection ` set (filter (\<lambda>r. conf_threshold < raw_confidence r) rs)"
    by blast
  then show ?thesis by auto
qed

lemma format_results_nth:
  assumes "format_results rs [] = Inr ds"
  shows "length ds = length (filter (\<lambda>r. conf_threshold < raw_confidence r) rs)"
    and "i < length ds \<Longrightarrow>
           make_detection (filter (\<lambda>r. conf_threshold < raw_confidence r) rs ! i) = Inr (ds ! i)"
proof -
  let ?kept = "filter (\<lambda>r. conf_threshold < raw_confidence r) rs"
  from format_results_kept [OF assms]
  have eq: "map Inr ds = map make_detection ?kept" by simp
  then show len: "length ds = length ?kept" by (rule map_eq_imp_length_eq)
  assume i: "i < length ds"
  from eq have "map Inr ds ! i = map make_detection ?kept ! i" by simp
  with i len show "make_detection (?kept ! i) = Inr (ds ! i)" by simp
qed

lemma format_results_confidences:
  assumes "format_results rs [] = Inr ds"
  shows "map confidence ds = filter (\<lambda>c. conf_threshold < c) (map raw_confidence rs)"
proof -
  let ?kept = "filter (\<lambda>r. conf_threshold < raw_confidence r) rs"
  note len = format_results_nth(1) [OF assms]
  have "map confidence ds = map raw_confidence ?kept"
  proof (rule nth_equalityI)
    show "length (map confidence ds) = length (map raw_confidence ?kept)" using len by simp
  next
    fix i assume "i < length (map confidence ds)"
    then have i: "i < length ds" by simp
    from format_results_nth(2) [OF assms i]
    have "confidence (ds ! i) = raw_confidence (?kept ! i)" by (rule make_detection_Inr)
    with i len show "map confidence ds ! i = map raw_confidence ?kept ! i" by simp
  qed
  then show ?thesis by (simp add: filter_map comp_def)
qed

lemma make_detection_box:
  assumes "make_detection r = Inr d"
  shows "2 < length (fst r) \<and> 1 < length (fst r ! 0) \<and> 1 < length (fst r ! 2) \<and>
         bbox d = corner_box (fst r)"
proof -
  note c = make_detection_Inr(3-6) [OF assms, THEN coord_Inr]
  from c have "2 < length (fst r)" "1 < length (fst r ! 0)" "1 < length (fst r ! 2)"
    by simp_all
  moreover from c have "bbox d = corner_box (fst r)" by (simp add: corner_box_def)
  ultimately show ?thesis by simp
qed

lemma format_results_boxes:
  assumes "format_results rs [] = Inr ds"
  shows "map bbox ds =
           map (\<lambda>r. corner_box (fst r)) (filter (\<lambda>r. conf_threshold < raw_confidence r) rs)"
proof -
  let ?kept = "filter (\<lambda>r. conf_threshold < raw_confidence r) rs"
  note len = format_results_nth(1) [OF assms]
  show ?thesis
  proof (rule nth_equalityI)
    show "length (map bbox ds) = length (map (\<lambda>r. corner_box (fst r)) ?kept)"
      using len by simp
  next
    fix i assume "i < length (map bbox ds)"
    then have i: "i < length ds" by simp
    from make_detection_box [OF format_results_nth(2) [OF assms i]]
    have "bbox (ds ! i) = corner_box (fst (?kept ! i))" by simp
    with i len show "map bbox ds ! i = map (\<lambda>r. corner_box (fst r)) ?kept ! i" by simp
  qed
qed

lemma extract_results:
  "fst (extract_text_from_image L svc fs p pre) =
     (case reader svc fs (engine_input L fs p pre) of
        Inl e \<Rightarrow> []
      | Inr raw \<Rightarrow> (case format_results raw [] of Inl e \<Rightarrow> [] | Inr ds \<Rightarrow> ds))"
  by (auto simp: extract_text_from_image_def engine_input_def Let_def split: prod.splits sum.splits)

lemma extract_origin:
  assumes "d \<in> set (fst (extract_text_from_image L svc fs p pre))"
  shows "\<exists>raw. reader svc fs (engine_input L fs p pre) = Inr raw \<and>
           (\<exists>r\<in>set raw. conf_threshold < raw_confidence r \<and> make_detection r = Inr d)"
proof -
  show ?thesis
  proof (cases "reader svc fs (engine_input L fs p pre)")
    case (Inl e)
    with assms show ?thesis by (simp add: extract_results)
  next
    case (Inr raw)
    show ?thesis
    proof (cases "format_results raw []")
      case (Inl e)
      with Inr assms show ?thesis by (simp add: extract_results)
    next
      case ds: (Inr ds)
      with Inr assms have "d \<in> set ds" by (simp add: extract_results)
      from format_results_origin [OF ds this] Inr show ?thesis by blast
    qed
  qed
qed


lemmas format_defs =
  make_detection_def coord_def py_index_def py_int_def strip_def isspace_def conf_threshold_def
  raw_confidence_def

lemma demo_page_reader:
  "reader demo_service demo_files (engine_input demo_libs demo_files ''page.png'' False) = Inr demo_raw"
  by (simp add: engine_input_def demo_service_def demo_readtext_def demo_files_def demo_ocr_def)

lemma demo_page_format:
  "format_results demo_raw [] =
     Inr [\<lparr>dtext = ''Hello'', confidence = 7 / 8, bbox = \<lparr>x0 = 10, y0 = 20, x1 = 110, y1 = 50\<rparr>\<rparr>,
          \<lparr>dtext = ''World'', confidence = 1 / 2, bbox = \<lparr>x0 = 10, y0 = 20, x1 = 110, y1 = 50\<rparr>\<rparr>]"
  by (simp add: demo_raw_def demo_box_def format_defs)

lemma demo_page_extract:
  "fst (extract_text_from_image demo_libs demo_service demo_files ''page.png'' False) =
     [\<lparr>dtext = ''Hello'', confidence = 7 / 8, bbox = \<lparr>x0 = 10, y0 = 20, x1 = 110, y1 = 50\<rparr>\<rparr>,
      \<lparr>dtext = ''World'', confidence = 1 / 2, bbox = \<lparr>x0 = 10, y0 = 20, x1 = 110, y1 = 50\<rparr>\<rparr>]"
  by (simp add: extract_results demo_page_reader demo_page_format)

lemma demo_slanted_extract:
  "fst (extract_text_from_image demo_libs demo_service demo_files ''slanted.png'' False) =
     [\<lparr>dtext = ''slanted'', confidence = 3 / 4, bbox = \<lparr>x0 = 0, y0 = 10, x1 = 11, y1 = 1\<rparr>\<rparr>]"
  by (simp add: extract_results engine_input_def demo_service_def demo_readtext_def demo_files_def
      demo_ocr_def demo_raw_tilted_def demo_tilted_box_def format_defs)

lemma demo_faint_extract:
  "reader demo_service demo_files (engine_input demo_libs demo_files ''faint.png'' False)
     = Inr demo_raw_faint"
  "fst (extract_text_from_image demo_libs demo_service demo_files ''faint.png'' False) =
     [\<lparr>dtext = ''above'', confidence = 7205759403792795 / 72057594037927936,
       bbox = \<lparr>x0 = 10, y0 = 20, x1 = 110, y1 = 50\<rparr>\<rparr>]"
  by (simp_all add: extract_results engine_input_def demo_service_def demo_readtext_def
      demo_files_def demo_ocr_def demo_raw_faint_def demo_box_def format_defs)


lemma base64_after_payload:
  assumes "payload_image L s = Inr cv_image"
  shows "extract_text_from_base64 L svc fs s pre =
     (case imwrite L fs temp_path cv_image of
        (Inl e, fs1) \<Rightarrow> ([], [''Error processing base64 image: '' @ str_exn e], fs1)
      | (Inr ok, fs1) \<Rightarrow>
          (case extract_text_from_image L svc fs1 temp_path pre of
             (results, printed) \<Rightarrow>
               (if os_path_exists fs1 temp_path
                then (case os_remove L fs1 temp_path of
                        Inl e \<Rightarrow> ([], printed @ [''Error processing base64 image: '' @ str_exn e], fs1)
                      | Inr fs2 \<Rightarrow> (results, printed, fs2))
                else (results, printed, fs1))))"
  using assms
  by (auto simp: extract_text_from_base64_def payload_image_def split: sum.splits prod.splits)


lemma base64_success:
  assumes "payload_image L s = Inr cv_image" and "cv2_imencode_jpg L cv_image = Inr jpg"
    and "fs temp_path \<noteq> Some Directory" and "os_can_write L temp_path"
    and "os_can_remove L temp_path"
  shows "extract_text_from_base64 L svc fs s pre =
           (fst (extract_text_from_image L svc (fs(temp_path \<mapsto> File jpg)) temp_path pre),
            snd (extract_text_from_image L svc (fs(temp_path \<mapsto> File jpg)) temp_path pre),
            fs(temp_path := None))"
  using assms(2-5)
  by (simp add: base64_after_payload [OF assms(1)] imwrite_def os_path_exists_def os_remove_def
      split: prod.splits)



lemma print_join_lines:
  "xs \<noteq> [] \<Longrightarrow> print (join [newline] xs) = concat (map (\<lambda>x. x @ [newline]) xs)"
  by (induction "[newline]" xs rule: join.induct) (simp_all add: print_def)

lemma main_proceeds:
  assumes "truthy (arg_image a) \<or> truthy (arg_base64 a)" and "easyocr_Reader L = Inr r"
  shows "main L fs a =
           \<lparr>stdout = main_output L (arg_output_format a) (fst (main_extract L \<lparr>reader = r\<rparr> fs a)),
            stderr = [''Initializing EasyOCR...'', ''EasyOCR initialized successfully'']
                     @ fst (snd (main_extract L \<lparr>reader = r\<rparr> fs a)),
            exit_code = 0,
            files = snd (snd (main_extract L \<lparr>reader = r\<rparr> fs a))\<rparr>"
  using assms by (auto simp: main_def OCRService_init_def split: prod.splits)

lemma demo_missing_extract:
  "main_extract demo_libs \<lparr>reader = demo_readtext\<rparr> demo_files
      \<lparr>arg_image = Some ''missing.png'', arg_base64 = None, arg_no_preprocess = True,
       arg_output_format = fmt\<rparr> =
     ([], [''Processing image: missing.png'', ''Error extracting text: No such file''], demo_files)"
  by (simp add: main_extract_def truthy_def extract_text_from_image_def demo_readtext_def
      demo_files_def)

lemma demo_decode_page:
  "base64_b64decode demo_libs ''AQ=='' = Inr 1" "Image_open demo_libs 1 = Inr 1"
  "np_array demo_libs 1 = Inr 1" "cv2_cvtColor_RGB2BGR demo_libs 1 = Inr 1"
  "cv2_imencode_jpg demo_libs 1 = Inr 11" "payload_image demo_libs ''AQ=='' = Inr 1"
  by (simp_all add: demo_libs_def demo_b64decode_def payload_image_def)

lemma demo_decode_slanted:
  "base64_b64decode demo_libs ''Ag=='' = Inr 2" "Image_open demo_libs 2 = Inr 2"
  "np_array demo_libs 2 = Inr 2" "cv2_cvtColor_RGB2BGR demo_libs 2 = Inr 2"
  "cv2_imencode_jpg demo_libs 2 = Inr 12"
  by (simp_all add: demo_libs_def demo_b64decode_def)

lemma demo_permissions:
  "os_can_write demo_libs p" "os_can_remove demo_libs p"
  by (simp_all add: demo_libs_def)

lemma demo_no_temp_file: "demo_files temp_path = None"
  by (simp add: demo_files_def temp_path_def)

lemma demo_page_base64:
  "fst (extract_text_from_base64 demo_libs demo_service demo_files ''AQ=='' False) =
     [\<lparr>dtext = ''Hello'', confidence = 13 / 16, bbox = \<lparr>x0 = 10, y0 = 20, x1 = 110, y1 = 50\<rparr>\<rparr>,
      \<lparr>dtext = ''World'', confidence = 3 / 8, bbox = \<lparr>x0 = 10, y0 = 20, x1 = 110, y1 = 50\<rparr>\<rparr>]"
proof -
  have "demo_files temp_path \<noteq> Some Directory" by (simp add: demo_no_temp_file)
  from base64_success [where fs = demo_files, OF demo_decode_page(6,5) this demo_permissions]
  show ?thesis
    by (simp add: extract_results engine_input_def demo_service_def demo_readtext_def
        demo_ocr_def demo_raw_jpeg_def demo_box_def format_defs)
qed


section \<open>The claims\<close>

text \<open>
  C1. Every detection returned by \<^verbatim>\<open>extract_text_from_image\<close> has a confidence strictly
  above the double 0.1, so none has the confidence 0.1 itself; and when the engine returns
  a list whose kept polygons can be indexed, the confidences returned are exactly those of
  the engine's list that are strictly above 0.1, in order.
\<close>

theorem extract_confidence_above_threshold:
  "(\<forall>d\<in>set (fst (extract_text_from_image L svc fs p pre)).
       conf_threshold < confidence d \<and> confidence d \<noteq> conf_threshold) \<and>
   (\<forall>raw ds. reader svc fs (engine_input L fs p pre) = Inr raw \<longrightarrow>
        format_results raw [] = Inr ds \<longrightarrow>
        fst (extract_text_from_image L svc fs p pre) = ds \<and>
        map confidence ds = filter (\<lambda>c. conf_threshold < c) (map raw_confidence raw))"
proof (intro conjI ballI allI impI)
  fix d assume "d \<in> set (fst (extract_text_from_image L svc fs p pre))"
  from extract_origin [OF this] obtain r
    where r: "conf_threshold < raw_confidence r" "make_detection r = Inr d"
    by blast
  from r(2) have "confidence d = raw_confidence r" by (rule make_detection_Inr)
  with r(1) show "conf_threshold < confidence d" and "confidence d \<noteq> conf_threshold"
    by simp_all
next
  fix raw ds
  assume raw: "reader svc fs (engine_input L fs p pre) = Inr raw"
    and ds: "format_results raw [] = Inr ds"
  then show "fst (extract_text_from_image L svc fs p pre) = ds" by (simp add: extract_results)
  from format_results_confidences [OF ds]
  show "map confidence ds = filter (\<lambda>c. conf_threshold < c) (map raw_confidence raw)" .
qed

theorem extract_confidence_above_threshold_witness:
  "conf_threshold = 3602879701896397 / 36028797018963968 \<and>
   reader demo_service demo_files (engine_input demo_libs demo_files ''page.png'' False) = Inr demo_raw \<and>
   map raw_confidence demo_raw = [7 / 8, 3602879701896397 / 36028797018963968, 1 / 2] \<and>
   map confidence (fst (extract_text_from_image demo_libs demo_service demo_files ''page.png'' False))
     = [7 / 8, 1 / 2] \<and>
   list_all (\<lambda>d. conf_threshold < confidence d)
     (fst (extract_text_from_image demo_libs demo_service demo_files ''page.png'' False)) \<and>
   reader demo_service demo_files (engine_input demo_libs demo_files ''faint.png'' False)
     = Inr demo_raw_faint \<and>
   map raw_confidence demo_raw_faint
     = [3602879701896397 / 36028797018963968, 7205759403792795 / 72057594037927936] \<and>
   map confidence (fst (extract_text_from_image demo_libs demo_service demo_files ''faint.png'' False))
     = [7205759403792795 / 72057594037927936]"
proof -
  note page = extract_confidence_above_threshold
                [of demo_libs demo_service demo_files "''page.png''" False]
  note faint = extract_confidence_above_threshold
                [of demo_libs demo_service demo_files "''faint.png''" False]
  from page have "list_all (\<lambda>d. conf_threshold < confidence d)
     (fst (extract_text_from_image demo_libs demo_service demo_files ''page.png'' False))"
    by (simp add: list_all_iff)
  moreover from page demo_page_reader demo_page_format
  have "map confidence
          (fst (extract_text_from_image demo_libs demo_service demo_files ''page.png'' False))
        = [7 / 8, 1 / 2]"
    by (simp add: demo_page_extract)
  moreover from faint
  have "map confidence
          (fst (extract_text_from_image demo_libs demo_service demo_files ''faint.png'' False))
        = [7205759403792795 / 72057594037927936]"
    by (simp add: demo_faint_extract)
  ultimately show ?thesis
    by (simp add: demo_page_reader demo_faint_extract conf_threshold_def demo_raw_def
        demo_raw_faint_def raw_confidence_def)
qed

text \<open>
  C2, as the claim states it, fails: the box is made of the polygon's points 0 and 2 as
  they come, and for the tilted box of file \<^verbatim>\<open>slanted.png\<close> point 0 lies below point 2.
\<close>

theorem bbox_corner_order_counterexample:
  "fst (extract_text_from_image demo_libs demo_service demo_files ''slanted.png'' False) =
     [\<lparr>dtext = ''slanted'', confidence = 3 / 4, bbox = \<lparr>x0 = 0, y0 = 10, x1 = 11, y1 = 1\<rparr>\<rparr>] \<and>
   \<not> y0 (bbox (hd (fst (extract_text_from_image demo_libs demo_service demo_files
                          ''slanted.png'' False))))
       \<le> y1 (bbox (hd (fst (extract_text_from_image demo_libs demo_service demo_files
                          ''slanted.png'' False))))"
  by (simp add: demo_slanted_extract)

text \<open>
  C2, amended. The box of every returned detection is the box of the truncated coordinates
  of points 0 and 2 of a polygon the engine returned with a confidence above 0.1, taken as
  they come; the boxes returned are those of the kept polygons, in order. The corners
  are not reordered. Hence \<open>x0 \<le> x1\<close> and \<open>y0 \<le> y1\<close> hold for every returned detection
  when every polygon the engine returned with a confidence above 0.1 has its point 0 at or
  above-left of its point 2.
\<close>

theorem bbox_corner_order_when_polygon_ordered:
  assumes "reader svc fs (engine_input L fs p pre) = Inr raw"
  shows "(\<forall>d\<in>set (fst (extract_text_from_image L svc fs p pre)).
            \<exists>r\<in>set raw. conf_threshold < raw_confidence r \<and>
                2 < length (fst r) \<and> 1 < length (fst r ! 0) \<and> 1 < length (fst r ! 2) \<and>
                bbox d = corner_box (fst r)) \<and>
         (\<forall>ds. format_results raw [] = Inr ds \<longrightarrow>
            map bbox (fst (extract_text_from_image L svc fs p pre)) =
              map (\<lambda>r. corner_box (fst r))
                (filter (\<lambda>r. conf_threshold < raw_confidence r) raw)) \<and>
         ((\<forall>r\<in>set raw. conf_threshold < raw_confidence r \<longrightarrow> corners_ordered (fst r)) \<longrightarrow>
            (\<forall>d\<in>set (fst (extract_text_from_image L svc fs p pre)).
               x0 (bbox d) \<le> x1 (bbox d) \<and> y0 (bbox d) \<le> y1 (bbox d)))"
proof (intro conjI)
  have origin: "\<exists>r\<in>set raw. conf_threshold < raw_confidence r \<and>
                2 < length (fst r) \<and> 1 < length (fst r ! 0) \<and> 1 < length (fst r ! 2) \<and>
                bbox d = corner_box (fst r)"
    if "d \<in> set (fst (extract_text_from_image L svc fs p pre))" for d
  proof -
    from extract_origin [OF that] assms obtain r
      where r: "r \<in> set raw" "conf_threshold < raw_confidence r" "make_detection r = Inr d"
      by auto
    from make_detection_box [OF r(3)] r(1,2) show ?thesis by blast
  qed
  then show "\<forall>d\<in>set (fst (extract_text_from_image L svc fs p pre)).
            \<exists>r\<in>set raw. conf_threshold < raw_confidence r \<and>
                2 < length (fst r) \<and> 1 < length (fst r ! 0) \<and> 1 < length (fst r ! 2) \<and>
                bbox d = corner_box (fst r)"
    by blast
  show "\<forall>ds. format_results raw [] = Inr ds \<longrightarrow>
            map bbox (fst (extract_text_from_image L svc fs p pre)) =
              map (\<lambda>r. corner_box (fst r))
                (filter (\<lambda>r. conf_threshold < raw_confidence r) raw)"
    using assms by (simp add: extract_results format_results_boxes)
  show "(\<forall>r\<in>set raw. conf_threshold < raw_confidence r \<longrightarrow> corners_ordered (fst r)) \<longrightarrow>
            (\<forall>d\<in>set (fst (extract_text_from_image L svc fs p pre)).
               x0 (bbox d) \<le> x1 (bbox d) \<and> y0 (bbox d) \<le> y1 (bbox d))"
  proof (intro impI ballI)
    fix d
    assume ord: "\<forall>r\<in>set raw. conf_threshold < raw_confidence r \<longrightarrow> corners_ordered (fst r)"
      and "d \<in> set (fst (extract_text_from_image L svc fs p pre))"
    from origin [OF this(2)] obtain r where r: "r \<in> set raw" "conf_threshold < raw_confidence r"
      and len: "2 < length (fst r)" "1 < length (fst r ! 0)" "1 < length (fst r ! 2)"
      and box: "bbox d = corner_box (fst r)"
      by blast
    from ord r len have "fst r ! 0 ! 0 \<le> fst r ! 2 ! 0" and "fst r ! 0 ! 1 \<le> fst r ! 2 ! 1"
      by (auto simp: corners_ordered_def)
    then have "py_int (fst r ! 0 ! 0) \<le> py_int (fst r ! 2 ! 0)"
      and "py_int (fst r ! 0 ! 1) \<le> py_int (fst r ! 2 ! 1)"
      by (simp_all add: py_int_mono)
    with box show "x0 (bbox d) \<le> x1 (bbox d) \<and> y0 (bbox d) \<le> y1 (bbox d)"
      by (simp add: corner_box_def)
  qed
qed

theorem bbox_corner_order_when_polygon_ordered_witness:
  "reader demo_service demo_files (engine_input demo_libs demo_files ''page.png'' False) = Inr demo_raw \<and>
   map fst demo_raw = [demo_box, demo_box, demo_box] \<and> corners_ordered demo_box \<and>
   corner_box demo_box = \<lparr>x0 = 10, y0 = 20, x1 = 110, y1 = 50\<rparr> \<and>
   map bbox (fst (extract_text_from_image demo_libs demo_service demo_files ''page.png'' False))
     = [corner_box demo_box, corner_box demo_box] \<and>
   list_all (\<lambda>d. x0 (bbox d) \<le> x1 (bbox d) \<and> y0 (bbox d) \<le> y1 (bbox d))
     (fst (extract_text_from_image demo_libs demo_service demo_files ''page.png'' False)) \<and>
   reader demo_service demo_files (engine_input demo_libs demo_files ''slanted.png'' False)
     = Inr demo_raw_tilted \<and>
   corner_box demo_tilted_box = \<lparr>x0 = 0, y0 = 10, x1 = 11, y1 = 1\<rparr> \<and>
   map bbox (fst (extract_text_from_image demo_libs demo_service demo_files ''slanted.png'' False))
     = [corner_box demo_tilted_box]"
proof -
  have box: "corners_ordered demo_box"
    by (simp add: demo_box_def corners_ordered_def)
  then have ord: "\<forall>r\<in>set demo_raw. conf_threshold < raw_confidence r \<longrightarrow> corners_ordered (fst r)"
    by (simp add: demo_raw_def)
  have cb: "corner_box demo_box = \<lparr>x0 = 10, y0 = 20, x1 = 110, y1 = 50\<rparr>"
    "corner_box demo_tilted_box = \<lparr>x0 = 0, y0 = 10, x1 = 11, y1 = 1\<rparr>"
    by (simp_all add: corner_box_def demo_box_def demo_tilted_box_def py_int_def)
  have slanted: "reader demo_service demo_files
      (engine_input demo_libs demo_files ''slanted.png'' False) = Inr demo_raw_tilted"
    by (simp add: engine_input_def demo_service_def demo_readtext_def demo_files_def demo_ocr_def)
  note page = bbox_corner_order_when_polygon_ordered [OF demo_page_reader]
  from page ord
  have "list_all (\<lambda>d. x0 (bbox d) \<le> x1 (bbox d) \<and> y0 (bbox d) \<le> y1 (bbox d))
     (fst (extract_text_from_image demo_libs demo_service demo_files ''page.png'' False))"
    by (simp add: list_all_iff)
  moreover from page demo_page_format
  have "map bbox (fst (extract_text_from_image demo_libs demo_service demo_files ''page.png'' False))
     = [corner_box demo_box, corner_box demo_box]"
    by (simp add: demo_raw_def conf_threshold_def raw_confidence_def)
  moreover from bbox_corner_order_when_polygon_ordered [OF slanted]
  have "map bbox (fst (extract_text_from_image demo_libs demo_service demo_files ''slanted.png'' False))
     = [corner_box demo_tilted_box]"
    by (simp add: demo_slanted_extract cb)
  ultimately show ?thesis
    using box cb slanted by (simp add: demo_page_reader demo_raw_def)
qed



text \<open>
  C3. For a path whose load fails (the colour load and the grayscale load both return
  \<^verbatim>\<open>None\<close>) and on which the engine then fails on what it is given (\<^verbatim>\<open>None\<close> with
  preprocessing, the path itself without), \<^verbatim>\<open>extract_text_from_image\<close> returns the
  empty list, whatever the flag; the last line it prints is the error.
\<close>

theorem extract_unreadable_path_gives_empty_list:
  assumes "imread L fs p = None" and "imread_grayscale L fs p = None"
    and "reader svc fs (if pre then NoneInput else PathInput p) = Inl e"
  shows "extract_text_from_image L svc fs p pre =
           ([], [''Processing image: '' @ p] @
                (if pre then [''Error preprocessing image: Could not load image from '' @ p]
                 else []) @
                [''Error extracting text: '' @ str_exn e])"
proof (cases pre)
  case True
  with assms(1) have "preprocess_image_try L fs p
                        = Inl (ValueError (''Could not load image from '' @ p))"
    by (simp add: preprocess_image_try_def)
  with assms(2) have "preprocess_image L fs p =
      (None, [''Error preprocessing image: Could not load image from '' @ p])"
    by (simp add: preprocess_image_def)
  with True assms(3) show ?thesis
    by (simp add: extract_text_from_image_def as_input_def)
next
  case False
  with assms(3) show ?thesis by (simp add: extract_text_from_image_def)
qed

theorem extract_unreadable_path_gives_empty_list_witness:
  "imread demo_libs demo_files ''missing.png'' = None \<and>
   imread demo_libs demo_files ''broken.png'' = None \<and>
   fst (extract_text_from_image demo_libs demo_service demo_files ''missing.png'' True) = [] \<and>
   fst (extract_text_from_image demo_libs demo_service demo_files ''missing.png'' False) = [] \<and>
   fst (extract_text_from_image demo_libs demo_service demo_files ''broken.png'' True) = [] \<and>
   fst (extract_text_from_image demo_libs demo_service demo_files ''broken.png'' False) = []"
proof -
  have m: "imread demo_libs demo_files ''missing.png'' = None"
    "imread_grayscale demo_libs demo_files ''missing.png'' = None"
    by (simp_all add: imread_def imread_grayscale_def demo_files_def)
  have b: "imread demo_libs demo_files ''broken.png'' = None"
    "imread_grayscale demo_libs demo_files ''broken.png'' = None"
    by (simp_all add: imread_def imread_grayscale_def demo_files_def demo_libs_def)
  have n: "reader demo_service demo_files (if True then NoneInput else PathInput q)
             = Inl (ValueError ''Invalid input type'')" for q
    by (simp add: demo_service_def demo_readtext_def)
  have pm: "reader demo_service demo_files (if False then NoneInput else PathInput ''missing.png'')
              = Inl (LibraryError ''No such file'')"
    by (simp add: demo_service_def demo_readtext_def demo_files_def)
  have pb: "reader demo_service demo_files (if False then NoneInput else PathInput ''broken.png'')
              = Inl (LibraryError ''cannot identify image file'')"
    by (simp add: demo_service_def demo_readtext_def demo_files_def)
  from extract_unreadable_path_gives_empty_list [OF m n]
    extract_unreadable_path_gives_empty_list [OF m pm]
    extract_unreadable_path_gives_empty_list [OF b n]
    extract_unreadable_path_gives_empty_list [OF b pb]
    m(1) b(1)
  show ?thesis by simp
qed

text \<open>
  C8. When a step of the chain of \<^verbatim>\<open>preprocess_image\<close> fails (the load returns
  \<^verbatim>\<open>None\<close>, or the grayscale conversion, the blur, the adaptive threshold or the
  morphological close raises), \<^verbatim>\<open>preprocess_image\<close> returns what the grayscale load of
  the path gives, and prints the error.
\<close>

theorem preprocess_image_falls_back_to_grayscale_load:
  assumes "imread L fs p = None \<or>
     (\<exists>img. imread L fs p = Some img \<and>
        ((\<exists>e. cv2_cvtColor_BGR2GRAY L img = Inl e) \<or>
         (\<exists>gray. cv2_cvtColor_BGR2GRAY L img = Inr gray \<and>
            ((\<exists>e. cv2_GaussianBlur L gray = Inl e) \<or>
             (\<exists>blurred. cv2_GaussianBlur L gray = Inr blurred \<and>
                ((\<exists>e. cv2_adaptiveThreshold L blurred = Inl e) \<or>
                 (\<exists>thresh. cv2_adaptiveThreshold L blurred = Inr thresh \<and>
                    (\<exists>e. cv2_morphologyEx_close L thresh = Inl e))))))))"
  shows "fst (preprocess_image L fs p) = imread_grayscale L fs p \<and>
         (\<exists>e. snd (preprocess_image L fs p) = [''Error preprocessing image: '' @ str_exn e])"
proof -
  from assms obtain e where "preprocess_image_try L fs p = Inl e"
    by (auto simp: preprocess_image_try_def)
  then show ?thesis by (auto simp: preprocess_image_def)
qed

theorem preprocess_image_falls_back_to_grayscale_load_witness:
  "imread demo_libs demo_files ''noisy.png'' = Some 3 \<and>
   cv2_cvtColor_BGR2GRAY demo_libs 3 = Inr 3 \<and>
   cv2_GaussianBlur demo_libs 3 = Inl (LibraryError ''blur failed'') \<and>
   imread_grayscale demo_libs demo_files ''noisy.png'' = Some 3 \<and>
   fst (preprocess_image demo_libs demo_files ''noisy.png'') = Some 3 \<and>
   imread demo_libs demo_files ''missing.png'' = None \<and>
   fst (preprocess_image demo_libs demo_files ''missing.png'') = None"
proof -
  have a: "imread demo_libs demo_files ''noisy.png'' = Some 3"
    "cv2_cvtColor_BGR2GRAY demo_libs 3 = Inr 3"
    "cv2_GaussianBlur demo_libs 3 = Inl (LibraryError ''blur failed'')"
    "imread_grayscale demo_libs demo_files ''noisy.png'' = Some 3"
    "imread demo_libs demo_files ''missing.png'' = None"
    "imread_grayscale demo_libs demo_files ''missing.png'' = None"
    by (simp_all add: imread_def imread_grayscale_def demo_files_def demo_libs_def)
  from a(1-3) have h: "imread demo_libs demo_files ''noisy.png'' = None \<or>
     (\<exists>img. imread demo_libs demo_files ''noisy.png'' = Some img \<and>
        ((\<exists>e. cv2_cvtColor_BGR2GRAY demo_libs img = Inl e) \<or>
         (\<exists>gray. cv2_cvtColor_BGR2GRAY demo_libs img = Inr gray \<and>
            ((\<exists>e. cv2_GaussianBlur demo_libs gray = Inl e) \<or>
             (\<exists>blurred. cv2_GaussianBlur demo_libs gray = Inr blurred \<and>
                ((\<exists>e. cv2_adaptiveThreshold demo_libs blurred = Inl e) \<or>
                 (\<exists>thresh. cv2_adaptiveThreshold demo_libs blurred = Inr thresh \<and>
                    (\<exists>e. cv2_morphologyEx_close demo_libs thresh = Inl e))))))))"
    by simp
  from preprocess_image_falls_back_to_grayscale_load [OF h]
    preprocess_image_falls_back_to_grayscale_load [OF disjI1, OF a(5)] a
  show ?thesis by simp
qed

text \<open>
  C4, as the claim states it, fails when both options are given: the only check is that
  at least one is there, and \<^verbatim>\<open>--image\<close> wins. The process exits with 0 and writes the
  texts to standard output.
\<close>

theorem both_inputs_counterexample:
  "exit_code (main demo_libs demo_files
      \<lparr>arg_image = Some ''page.png'', arg_base64 = Some ''AQ=='', arg_no_preprocess = True,
       arg_output_format = Text\<rparr>) = 0 \<and>
   stdout (main demo_libs demo_files
      \<lparr>arg_image = Some ''page.png'', arg_base64 = Some ''AQ=='', arg_no_preprocess = True,
       arg_output_format = Text\<rparr>) = ''Hello'' @ [newline] @ ''World'' @ [newline]"
proof -
  let ?a = "\<lparr>arg_image = Some ''page.png'', arg_base64 = Some ''AQ=='', arg_no_preprocess = True,
       arg_output_format = Text\<rparr>"
  have r: "easyocr_Reader demo_libs = Inr demo_readtext" by (simp add: demo_libs_def)
  have t: "truthy (arg_image ?a) \<or> truthy (arg_base64 ?a)" by (simp add: truthy_def)
  have "fst (main_extract demo_libs \<lparr>reader = demo_readtext\<rparr> demo_files ?a) =
     fst (extract_text_from_image demo_libs demo_service demo_files ''page.png'' False)"
    by (simp add: main_extract_def truthy_def demo_service_def split: prod.splits)
  with main_proceeds [OF t r, of demo_files] show ?thesis
    by (simp add: demo_page_extract main_output_def print_def)
qed

text \<open>
  C4, amended. When neither \<^verbatim>\<open>--image\<close> nor \<^verbatim>\<open>--base64\<close> is given (absent or empty),
  the process exits with code 1, prints the error to standard error and nothing to
  standard output, and leaves the files alone. When \<^verbatim>\<open>--image\<close> is given, \<^verbatim>\<open>--base64\<close>
  is ignored: the run is the one without it.
\<close>

theorem main_needs_one_input:
  "(\<not> truthy (arg_image a) \<and> \<not> truthy (arg_base64 a) \<longrightarrow>
      main L fs a = \<lparr>stdout = [], stderr = [''Error: Must provide either --image or --base64''],
                     exit_code = 1, files = fs\<rparr>) \<and>
   (truthy (arg_image a) \<longrightarrow> main L fs a = main L fs (a\<lparr>arg_base64 := None\<rparr>))"
proof (intro conjI impI)
  assume "\<not> truthy (arg_image a) \<and> \<not> truthy (arg_base64 a)"
  then show "main L fs a = \<lparr>stdout = [], stderr = [''Error: Must provide either --image or --base64''],
                     exit_code = 1, files = fs\<rparr>"
    by (simp add: main_def)
next
  assume t: "truthy (arg_image a)"
  then have "main_extract L svc fs (a\<lparr>arg_base64 := None\<rparr>) = main_extract L svc fs a" for svc
    by (simp add: main_extract_def)
  with t show "main L fs a = main L fs (a\<lparr>arg_base64 := None\<rparr>)"
    by (simp add: main_def split: prod.splits sum.splits)
qed

theorem main_needs_one_input_witness:
  "main demo_libs demo_files
      \<lparr>arg_image = None, arg_base64 = None, arg_no_preprocess = False, arg_output_format = Json\<rparr>
     = \<lparr>stdout = [], stderr = [''Error: Must provide either --image or --base64''],
        exit_code = 1, files = demo_files\<rparr> \<and>
   main demo_libs demo_files
      \<lparr>arg_image = Some ''page.png'', arg_base64 = Some ''AQ=='', arg_no_preprocess = True,
       arg_output_format = Text\<rparr>
     = main demo_libs demo_files
      \<lparr>arg_image = Some ''page.png'', arg_base64 = None, arg_no_preprocess = True,
       arg_output_format = Text\<rparr>"
  using main_needs_one_input [of "\<lparr>arg_image = None, arg_base64 = None, arg_no_preprocess = False,
            arg_output_format = Json\<rparr>" demo_libs demo_files]
        main_needs_one_input [of "\<lparr>arg_image = Some ''page.png'', arg_base64 = Some ''AQ=='',
            arg_no_preprocess = True, arg_output_format = Text\<rparr>" demo_libs demo_files]
  by (simp add: truthy_def)

text \<open>
  C5, as the claim states it, fails for N = 0: \<^verbatim>\<open>print\<close> of the empty join still writes a
  line feed, so an empty result gives one empty line, not zero lines.
\<close>

theorem text_output_empty_counterexample:
  "fst (main_extract demo_libs \<lparr>reader = demo_readtext\<rparr> demo_files
          \<lparr>arg_image = Some ''missing.png'', arg_base64 = None, arg_no_preprocess = True,
           arg_output_format = Text\<rparr>) = [] \<and>
   stdout (main demo_libs demo_files
          \<lparr>arg_image = Some ''missing.png'', arg_base64 = None, arg_no_preprocess = True,
           arg_output_format = Text\<rparr>) = [newline]"
proof -
  let ?a = "\<lparr>arg_image = Some ''missing.png'', arg_base64 = None, arg_no_preprocess = True,
           arg_output_format = Text\<rparr>"
  have r: "easyocr_Reader demo_libs = Inr demo_readtext" by (simp add: demo_libs_def)
  have t: "truthy (arg_image ?a) \<or> truthy (arg_base64 ?a)" by (simp add: truthy_def)
  from main_proceeds [OF t r, of demo_files] show ?thesis
    by (simp add: demo_missing_extract main_output_def print_def)
qed

text \<open>
  C5, amended. With \<^verbatim>\<open>--output-format text\<close>, an input given and the engine
  constructed, the process exits with 0 and standard output is, for a list of N \<ge> 1
  detections, the N text fields in the order of the list, each followed by a line feed;
  for the empty list it is a single line feed.
\<close>

theorem text_output_one_line_per_detection:
  assumes "truthy (arg_image a) \<or> truthy (arg_base64 a)" and "easyocr_Reader L = Inr r"
    and "arg_output_format a = Text"
    and "fst (main_extract L \<lparr>reader = r\<rparr> fs a) = results"
  shows "stdout (main L fs a) =
           (if results = [] then [newline] else concat (map (\<lambda>d. dtext d @ [newline]) results)) \<and>
         exit_code (main L fs a) = 0"
proof (cases "results = []")
  case True
  with assms(3,4) main_proceeds [OF assms(1,2), of fs] show ?thesis
    by (simp add: main_output_def print_def)
next
  case False
  then have "print (join [newline] (map dtext results))
               = concat (map (\<lambda>x. x @ [newline]) (map dtext results))"
    by (intro print_join_lines) simp
  with False assms(3,4) main_proceeds [OF assms(1,2), of fs] show ?thesis
    by (simp add: main_output_def comp_def)
qed

theorem text_output_one_line_per_detection_witness:
  "fst (main_extract demo_libs \<lparr>reader = demo_readtext\<rparr> demo_files
          \<lparr>arg_image = Some ''page.png'', arg_base64 = None, arg_no_preprocess = True,
           arg_output_format = Text\<rparr>)
     = [\<lparr>dtext = ''Hello'', confidence = 7 / 8, bbox = \<lparr>x0 = 10, y0 = 20, x1 = 110, y1 = 50\<rparr>\<rparr>,
        \<lparr>dtext = ''World'', confidence = 1 / 2, bbox = \<lparr>x0 = 10, y0 = 20, x1 = 110, y1 = 50\<rparr>\<rparr>] \<and>
   stdout (main demo_libs demo_files
          \<lparr>arg_image = Some ''page.png'', arg_base64 = None, arg_no_preprocess = True,
           arg_output_format = Text\<rparr>) = ''Hello'' @ [newline] @ ''World'' @ [newline] \<and>
   exit_code (main demo_libs demo_files
          \<lparr>arg_image = Some ''page.png'', arg_base64 = None, arg_no_preprocess = True,
           arg_output_format = Text\<rparr>) = 0"
proof -
  let ?a = "\<lparr>arg_image = Some ''page.png'', arg_base64 = None, arg_no_preprocess = True,
           arg_output_format = Text\<rparr>"
  have r: "easyocr_Reader demo_libs = Inr demo_readtext" by (simp add: demo_libs_def)
  have t: "truthy (arg_image ?a) \<or> truthy (arg_base64 ?a)" by (simp add: truthy_def)
  have f: "arg_output_format ?a = Text" by simp
  have e: "fst (main_extract demo_libs \<lparr>reader = demo_readtext\<rparr> demo_files ?a) =
     fst (extract_text_from_image demo_libs demo_service demo_files ''page.png'' False)"
    by (simp add: main_extract_def truthy_def demo_service_def split: prod.splits)
  from text_output_one_line_per_detection [OF t r f e] e show ?thesis
    by (simp add: demo_page_extract)
qed

text \<open>
  C9. With the JSON format, an input given and the engine constructed, an empty detection
  list makes the process print \<^verbatim>\<open>[]\<close> (and the line feed of \<^verbatim>\<open>print\<close>) to standard
  output and exit with code 0.
\<close>

theorem json_output_of_empty_result:
  assumes "truthy (arg_image a) \<or> truthy (arg_base64 a)" and "easyocr_Reader L = Inr r"
    and "arg_output_format a = Json"
    and "fst (main_extract L \<lparr>reader = r\<rparr> fs a) = []"
  shows "stdout (main L fs a) = ''[]'' @ [newline] \<and> exit_code (main L fs a) = 0"
  using assms(3,4) main_proceeds [OF assms(1,2), of fs]
  by (simp add: main_output_def json_dumps_def print_def)

theorem json_output_of_empty_result_witness:
  "fst (main_extract demo_libs \<lparr>reader = demo_readtext\<rparr> demo_files
          \<lparr>arg_image = Some ''missing.png'', arg_base64 = None, arg_no_preprocess = True,
           arg_output_format = Json\<rparr>) = [] \<and>
   stdout (main demo_libs demo_files
          \<lparr>arg_image = Some ''missing.png'', arg_base64 = None, arg_no_preprocess = True,
           arg_output_format = Json\<rparr>) = ''[]'' @ [newline] \<and>
   exit_code (main demo_libs demo_files
          \<lparr>arg_image = Some ''missing.png'', arg_base64 = None, arg_no_preprocess = True,
           arg_output_format = Json\<rparr>) = 0"
proof -
  let ?a = "\<lparr>arg_image = Some ''missing.png'', arg_base64 = None, arg_no_preprocess = True,
           arg_output_format = Json\<rparr>"
  have r: "easyocr_Reader demo_libs = Inr demo_readtext" by (simp add: demo_libs_def)
  have t: "truthy (arg_image ?a) \<or> truthy (arg_base64 ?a)" by (simp add: truthy_def)
  have f: "arg_output_format ?a = Json" by simp
  have e: "fst (main_extract demo_libs \<lparr>reader = demo_readtext\<rparr> demo_files ?a) = []"
    by (simp add: demo_missing_extract)
  from json_output_of_empty_result [OF t r f e] e show ?thesis by simp
qed

text \<open>
  C6, as the claim states it, fails: the base64 path does not hand the engine the original
  file but the temporary file, a JPEG written again from the decoded pixels. In the small
  world the engine reads the rewritten file with other confidences than the original.
\<close>

theorem base64_round_trip_counterexample:
  "demo_files ''page.png'' = Some (File 1) \<and> base64_b64decode demo_libs ''AQ=='' = Inr 1 \<and>
   map confidence (fst (extract_text_from_image demo_libs demo_service demo_files ''page.png'' False))
     = [7 / 8, 1 / 2] \<and>
   map confidence (fst (extract_text_from_base64 demo_libs demo_service demo_files ''AQ=='' False))
     = [13 / 16, 3 / 8] \<and>
   fst (extract_text_from_base64 demo_libs demo_service demo_files ''AQ=='' False)
     \<noteq> fst (extract_text_from_image demo_libs demo_service demo_files ''page.png'' False)"
proof -
  have "demo_files ''page.png'' = Some (File 1)" by (simp add: demo_files_def)
  then show ?thesis by (simp add: demo_page_base64 demo_page_extract demo_decode_page)
qed

text \<open>
  C6, amended. When the payload decodes to the bytes of the file, the decoded picture is
  converted and written as a JPEG to the temporary path (no directory is there and the
  process may write it) and the temporary file is removed afterwards (the process may
  remove it), \<^verbatim>\<open>extract_text_from_base64\<close> without preprocessing returns what
  \<^verbatim>\<open>extract_text_from_image\<close> without preprocessing returns on the temporary file holding
  the rewritten JPEG; this is the result on the original file whenever the engine reads
  both files alike.
\<close>

theorem base64_round_trip_through_temp_file:
  assumes "fs p = Some (File image_data)" and "base64_b64decode L s = Inr image_data"
    and "Image_open L image_data = Inr pil_image" and "np_array L pil_image = Inr arr"
    and "cv2_cvtColor_RGB2BGR L arr = Inr cv_image" and "cv2_imencode_jpg L cv_image = Inr jpg"
    and "fs temp_path \<noteq> Some Directory" and "os_can_write L temp_path"
    and "os_can_remove L temp_path"
  shows "fst (extract_text_from_base64 L svc fs s False) =
           fst (extract_text_from_image L svc (fs(temp_path \<mapsto> File jpg)) temp_path False) \<and>
         (reader svc (fs(temp_path \<mapsto> File jpg)) (PathInput temp_path) = reader svc fs (PathInput p)
            \<longrightarrow> fst (extract_text_from_base64 L svc fs s False) =
                fst (extract_text_from_image L svc fs p False))"
proof -
  let ?fs1 = "fs(temp_path \<mapsto> File jpg)"
  from assms(2-5) have "payload_image L s = Inr cv_image" by (simp add: payload_image_def)
  from base64_success [where fs = fs, OF this assms(6-9)]
  have tmp: "fst (extract_text_from_base64 L svc fs s False) =
               fst (extract_text_from_image L svc ?fs1 temp_path False)"
    by simp
  have "fst (extract_text_from_image L svc ?fs1 temp_path False) =
          fst (extract_text_from_image L svc fs p False)"
    if "reader svc ?fs1 (PathInput temp_path) = reader svc fs (PathInput p)"
    using that by (simp add: extract_results engine_input_def)
  with tmp show ?thesis by simp
qed

theorem base64_round_trip_through_temp_file_witness:
  "demo_files ''slanted.png'' = Some (File 2) \<and> base64_b64decode demo_libs ''Ag=='' = Inr 2 \<and>
   demo_files temp_path = None \<and>
   reader demo_service (demo_files(temp_path \<mapsto> File 12)) (PathInput temp_path)
     = Inr demo_raw_tilted \<and>
   reader demo_service demo_files (PathInput ''slanted.png'') = Inr demo_raw_tilted \<and>
   fst (extract_text_from_base64 demo_libs demo_service demo_files ''Ag=='' False) =
     [\<lparr>dtext = ''slanted'', confidence = 3 / 4, bbox = \<lparr>x0 = 0, y0 = 10, x1 = 11, y1 = 1\<rparr>\<rparr>] \<and>
   fst (extract_text_from_base64 demo_libs demo_service demo_files ''Ag=='' False) =
     fst (extract_text_from_image demo_libs demo_service demo_files ''slanted.png'' False)"
proof -
  have f: "demo_files ''slanted.png'' = Some (File 2)" by (simp add: demo_files_def)
  have nd: "demo_files temp_path \<noteq> Some Directory" by (simp add: demo_no_temp_file)
  have r1: "reader demo_service (demo_files(temp_path \<mapsto> File 12)) (PathInput temp_path)
              = Inr demo_raw_tilted"
    by (simp add: demo_service_def demo_readtext_def demo_ocr_def)
  have r2: "reader demo_service demo_files (PathInput ''slanted.png'') = Inr demo_raw_tilted"
    by (simp add: demo_service_def demo_readtext_def demo_ocr_def demo_files_def)
  note rt = base64_round_trip_through_temp_file
         [where fs = demo_files and p = "''slanted.png''" and svc = demo_service,
          OF f demo_decode_slanted nd demo_permissions]
  from r1 r2
  have "reader demo_service (demo_files(temp_path \<mapsto> File 12)) (PathInput temp_path)
          = reader demo_service demo_files (PathInput ''slanted.png'')"
    by simp
  with rt [THEN conjunct2]
  have "fst (extract_text_from_base64 demo_libs demo_service demo_files ''Ag=='' False) =
          fst (extract_text_from_image demo_libs demo_service demo_files ''slanted.png'' False)"
    by (rule mp)
  then have "fst (extract_text_from_base64 demo_libs demo_service demo_files ''Ag=='' False) =
     [\<lparr>dtext = ''slanted'', confidence = 3 / 4, bbox = \<lparr>x0 = 0, y0 = 10, x1 = 11, y1 = 1\<rparr>\<rparr>]"
    by (simp add: demo_slanted_extract)
  with f r1 r2 demo_decode_slanted(1) demo_no_temp_file show ?thesis
    by (simp add: demo_slanted_extract)
qed




end
